theory Spec2Isabelle
  imports Main "HOL-Library.Word"
begin

section \<open>Sitronix ST7703 panel driver: data model\<close>

text \<open>
  The embedding follows \<^verbatim>\<open>drivers/gpu/drm/panel/panel-sitronix-st7703.c\<close>.
  Everything the driver does to the outside world (the reset GPIO, the two regulators,
  the DSI bus, sleeping) is recorded, in program order, in a trace of events. The
  return codes of the fallible external calls come from an environment: the code of the
  n-th bus transaction and of the n-th regulator call. Since a run is deterministic, every
  behaviour of the hardware is some such environment. Calls to \<^verbatim>\<open>printk\<close>, \<^verbatim>\<open>dev_err\<close>
  and \<^verbatim>\<open>dev_dbg\<close> touch no panel hardware and are left out. Return codes are C integers
  holding 0, a byte count or a negative errno; the driver only tests their sign and hands
  them on, so they are integers here.
\<close>

subsection \<open>Manufacturer specific commands\<close>

definition ST7703_CMD_ALL_PIXEL_OFF :: "8 word" where
  "ST7703_CMD_ALL_PIXEL_OFF = 0x22"

definition ST7703_CMD_ALL_PIXEL_ON :: "8 word" where
  "ST7703_CMD_ALL_PIXEL_ON = 0x23"

definition ST7703_CMD_SETDISP :: "8 word" where
  "ST7703_CMD_SETDISP = 0xB2"

definition ST7703_CMD_SETRGBIF :: "8 word" where
  "ST7703_CMD_SETRGBIF = 0xB3"

definition ST7703_CMD_SETCYC :: "8 word" where
  "ST7703_CMD_SETCYC = 0xB4"

definition ST7703_CMD_SETBGP :: "8 word" where
  "ST7703_CMD_SETBGP = 0xB5"

definition ST7703_CMD_SETVCOM :: "8 word" where
  "ST7703_CMD_SETVCOM = 0xB6"

definition ST7703_CMD_SETOTP :: "8 word" where
  "ST7703_CMD_SETOTP = 0xB7"

definition ST7703_CMD_SETPOWER_EXT :: "8 word" where
  "ST7703_CMD_SETPOWER_EXT = 0xB8"

definition ST7703_CMD_SETEXTC :: "8 word" where
  "ST7703_CMD_SETEXTC = 0xB9"

definition ST7703_CMD_SETMIPI :: "8 word" where
  "ST7703_CMD_SETMIPI = 0xBA"

definition ST7703_CMD_SETVDC :: "8 word" where
  "ST7703_CMD_SETVDC = 0xBC"

definition ST7703_CMD_UNKNOWN_BF :: "8 word" where
  "ST7703_CMD_UNKNOWN_BF = 0xBF"

definition ST7703_CMD_SETSCR :: "8 word" where
  "ST7703_CMD_SETSCR = 0xC0"

definition ST7703_CMD_SETPOWER :: "8 word" where
  "ST7703_CMD_SETPOWER = 0xC1"

definition ST7703_CMD_UNKNOWN_C6 :: "8 word" where
  "ST7703_CMD_UNKNOWN_C6 = 0xC6"

definition ST7703_CMD_SETIO :: "8 word" where
  "ST7703_CMD_SETIO = 0xC7"

definition ST7703_CMD_SETCABC :: "8 word" where
  "ST7703_CMD_SETCABC = 0xC8"

definition ST7703_CMD_SETPANEL :: "8 word" where
  "ST7703_CMD_SETPANEL = 0xCC"

definition ST7703_CMD_SETGAMMA :: "8 word" where
  "ST7703_CMD_SETGAMMA = 0xE0"

definition ST7703_CMD_SETEQ :: "8 word" where
  "ST7703_CMD_SETEQ = 0xE3"

definition ST7703_CMD_SETGIP1 :: "8 word" where
  "ST7703_CMD_SETGIP1 = 0xE9"

definition ST7703_CMD_SETGIP2 :: "8 word" where
  "ST7703_CMD_SETGIP2 = 0xEA"

definition ST7703_CMD_UNKNOWN_EF :: "8 word" where
  "ST7703_CMD_UNKNOWN_EF = 0xEF"

subsection \<open>Pointers to regulators\<close>

text \<open>
  \<^verbatim>\<open>struct regulator *\<close> as the probe routine leaves it: a valid handle, NULL, or an
  error pointer carrying an errno (\<^verbatim>\<open>devm_regulator_get_optional\<close> for an absent supply).
\<close>

datatype regulator_ptr = Valid | Null | Err_Ptr int

definition IS_ERR_OR_NULL :: "regulator_ptr \<Rightarrow> bool" where
  "IS_ERR_OR_NULL p = (case p of Valid \<Rightarrow> False | Null \<Rightarrow> True | Err_Ptr n \<Rightarrow> True)"

datatype rail = Vcc | Iovcc

text \<open>A call that dereferences a pointer which is NULL or an error pointer.\<close>

datatype fault = Bad_Regulator_Pointer

subsection \<open>The outside world\<close>

text \<open>
  Modelled from the spec: the kernel services the driver calls (regulator, GPIO, DSI host,
  sleep) are not part of the driver's source. The specification lists them as external
  collaborators that perform one action each and report success or failure. Here every
  call is one event on the trace, and the code a fallible call returns is a parameter,
  read from the environment at the number of the call. A regulator call on a pointer that
  is not a valid handle is a fault.
\<close>

datatype event =
    Gpio_Set bool
  | Reg_Enable rail
  | Reg_Disable rail
  | Msleep nat
  | Generic_Write "8 word list"
  | Dcs_Write "8 word" "8 word list"
  | Dcs_Read "8 word" nat
  | Exit_Sleep_Mode
  | Enter_Sleep_Mode
  | Set_Display_On
  | Set_Display_Off

record env =
  bus_ret :: "nat \<Rightarrow> int"
  reg_ret :: "nat \<Rightarrow> int"

record hw =
  events :: "event list"
  bus_calls :: nat
  reg_calls :: nat

definition msleep :: "nat \<Rightarrow> hw \<Rightarrow> hw" where
  "msleep n h = h\<lparr>events := events h @ [Msleep n]\<rparr>"

text \<open>The reset line; \<^term>\<open>True\<close> is the value 1, the line asserted.\<close>

definition gpiod_set_value_cansleep :: "bool \<Rightarrow> hw \<Rightarrow> hw" where
  "gpiod_set_value_cansleep v h = h\<lparr>events := events h @ [Gpio_Set v]\<rparr>"

definition regulator_call :: "env \<Rightarrow> event \<Rightarrow> regulator_ptr \<Rightarrow> hw \<Rightarrow> fault + (int \<times> hw)" where
  "regulator_call e ev p h =
     (if IS_ERR_OR_NULL p then Inl Bad_Regulator_Pointer
      else Inr (reg_ret e (reg_calls h),
                h\<lparr>events := events h @ [ev], reg_calls := Suc (reg_calls h)\<rparr>))"

definition regulator_enable :: "env \<Rightarrow> rail \<Rightarrow> regulator_ptr \<Rightarrow> hw \<Rightarrow> fault + (int \<times> hw)" where
  "regulator_enable e r p h = regulator_call e (Reg_Enable r) p h"

definition regulator_disable :: "env \<Rightarrow> rail \<Rightarrow> regulator_ptr \<Rightarrow> hw \<Rightarrow> fault + (int \<times> hw)" where
  "regulator_disable e r p h = regulator_call e (Reg_Disable r) p h"

text \<open>One transaction on the DSI bus: the event is recorded and the transport answers.\<close>

definition bus_xfer :: "env \<Rightarrow> event \<Rightarrow> hw \<Rightarrow> int \<times> hw" where
  "bus_xfer e ev h =
     (bus_ret e (bus_calls h),
      h\<lparr>events := events h @ [ev], bus_calls := Suc (bus_calls h)\<rparr>)"

definition mipi_dsi_generic_write :: "env \<Rightarrow> 8 word list \<Rightarrow> hw \<Rightarrow> int \<times> hw" where
  "mipi_dsi_generic_write e d h = bus_xfer e (Generic_Write d) h"

definition mipi_dsi_dcs_write :: "env \<Rightarrow> 8 word \<Rightarrow> 8 word list \<Rightarrow> hw \<Rightarrow> int \<times> hw" where
  "mipi_dsi_dcs_write e cmd d h = bus_xfer e (Dcs_Write cmd d) h"

definition mipi_dsi_dcs_read :: "env \<Rightarrow> 8 word \<Rightarrow> nat \<Rightarrow> hw \<Rightarrow> int \<times> hw" where
  "mipi_dsi_dcs_read e cmd len h = bus_xfer e (Dcs_Read cmd len) h"

definition mipi_dsi_dcs_exit_sleep_mode :: "env \<Rightarrow> hw \<Rightarrow> int \<times> hw" where
  "mipi_dsi_dcs_exit_sleep_mode e h = bus_xfer e Exit_Sleep_Mode h"

definition mipi_dsi_dcs_enter_sleep_mode :: "env \<Rightarrow> hw \<Rightarrow> int \<times> hw" where
  "mipi_dsi_dcs_enter_sleep_mode e h = bus_xfer e Enter_Sleep_Mode h"

definition mipi_dsi_dcs_set_display_on :: "env \<Rightarrow> hw \<Rightarrow> int \<times> hw" where
  "mipi_dsi_dcs_set_display_on e h = bus_xfer e Set_Display_On h"

definition mipi_dsi_dcs_set_display_off :: "env \<Rightarrow> hw \<Rightarrow> int \<times> hw" where
  "mipi_dsi_dcs_set_display_off e h = bus_xfer e Set_Display_Off h"

subsection \<open>The panel object\<close>

datatype dsi_mode_flag =
    MIPI_DSI_MODE_VIDEO
  | MIPI_DSI_MODE_VIDEO_BURST
  | MIPI_DSI_MODE_VIDEO_SYNC_PULSE
  | MIPI_DSI_MODE_LPM

text \<open>The three descriptors \<^verbatim>\<open>ctx->desc\<close> can point to (the match table).\<close>

datatype st7703_panel_desc = Jh057n00900_panel_desc | Xbd599_desc | P0500063b_desc

text \<open>
  \<^verbatim>\<open>struct st7703\<close>; \<open>dsi_mode_flags\<close> is \<^verbatim>\<open>ctx->dsi->mode_flags\<close>, a bit set.
\<close>

record st7703 =
  vcc :: regulator_ptr
  iovcc :: regulator_ptr
  prepared :: bool
  dsi_mode_flags :: "dsi_mode_flag set"
  desc :: st7703_panel_desc

section \<open>Command sequences\<close>

text \<open>
  The two write macros. Each returns from the enclosing function when the transport
  answers with a negative code: \<^term>\<open>Some ret\<close> is that early return, \<^term>\<open>None\<close> falls
  through to the next statement.
\<close>

definition dsi_generic_write_seq :: "env \<Rightarrow> 8 word list \<Rightarrow> hw \<Rightarrow> int option \<times> hw" where
  "dsi_generic_write_seq e d h =
     (let (ret, h1) = mipi_dsi_generic_write e d h
      in (if ret < 0 then Some ret else None, h1))"

definition dsi_dcs_write_seq :: "env \<Rightarrow> 8 word \<Rightarrow> 8 word list \<Rightarrow> hw \<Rightarrow> int option \<times> hw" where
  "dsi_dcs_write_seq e cmd d h =
     (let (ret, h1) = mipi_dsi_dcs_write e cmd d h;
          h2 = msleep 20 h1
      in (if ret < 0 then Some ret else None, h2))"

text \<open>
  An initialization routine is a straight line of macro calls and sleeps, ending in
  \<^verbatim>\<open>return 0\<close>. It is kept as the list of its statements, run in order.
\<close>

datatype init_step =
    Generic_Write_Seq "8 word list"
  | Dcs_Write_Seq "8 word" "8 word list"
  | Msleep_Step nat

fun exec_step :: "env \<Rightarrow> init_step \<Rightarrow> hw \<Rightarrow> int option \<times> hw" where
  "exec_step e (Generic_Write_Seq d) h = dsi_generic_write_seq e d h"
| "exec_step e (Dcs_Write_Seq cmd d) h = dsi_dcs_write_seq e cmd d h"
| "exec_step e (Msleep_Step n) h = (None, msleep n h)"

fun run_init :: "env \<Rightarrow> init_step list \<Rightarrow> hw \<Rightarrow> int \<times> hw" where
  "run_init e [] h = (0, h)"
| "run_init e (s # ss) h =
     (case exec_step e s h of
        (Some ret, h1) \<Rightarrow> (ret, h1)
      | (None, h1) \<Rightarrow> run_init e ss h1)"

definition jh057n_steps :: "init_step list" where
  "jh057n_steps =
     [Generic_Write_Seq [ST7703_CMD_SETEXTC, 0xF1, 0x12, 0x83],
      Generic_Write_Seq [ST7703_CMD_SETRGBIF, 0x10, 0x10, 0x05, 0x05, 0x03, 0xFF, 0x00,
          0x00, 0x00, 0x00],
      Generic_Write_Seq [ST7703_CMD_SETSCR, 0x73, 0x73, 0x50, 0x50, 0x00, 0x00, 0x08,
          0x70, 0x00],
      Generic_Write_Seq [ST7703_CMD_SETVDC, 0x4E],
      Generic_Write_Seq [ST7703_CMD_SETPANEL, 0x0B],
      Generic_Write_Seq [ST7703_CMD_SETCYC, 0x80],
      Generic_Write_Seq [ST7703_CMD_SETDISP, 0xF0, 0x12, 0x30],
      Generic_Write_Seq [ST7703_CMD_SETEQ, 0x07, 0x07, 0x0B, 0x0B, 0x03, 0x0B, 0x00, 0x00,
          0x00, 0x00, 0xFF, 0x00, 0xC0, 0x10],
      Generic_Write_Seq [ST7703_CMD_SETBGP, 0x08, 0x08],
      Msleep_Step 20,
      Generic_Write_Seq [ST7703_CMD_SETVCOM, 0x3F, 0x3F],
      Generic_Write_Seq [ST7703_CMD_UNKNOWN_BF, 0x02, 0x11, 0x00],
      Generic_Write_Seq [ST7703_CMD_SETGIP1, 0x82, 0x10, 0x06, 0x05, 0x9E, 0x0A, 0xA5,
          0x12, 0x31, 0x23, 0x37, 0x83, 0x04, 0xBC, 0x27, 0x38, 0x0C, 0x00, 0x03, 0x00,
          0x00, 0x00, 0x0C, 0x00, 0x03, 0x00, 0x00, 0x00, 0x75, 0x75, 0x31, 0x88, 0x88,
          0x88, 0x88, 0x88, 0x88, 0x13, 0x88, 0x64, 0x64, 0x20, 0x88, 0x88, 0x88, 0x88,
          0x88, 0x88, 0x02, 0x88, 0x00, 0x00, 0x00, 0x00, 0x00, 0x00, 0x00, 0x00, 0x00,
          0x00, 0x00, 0x00, 0x00],
      Generic_Write_Seq [ST7703_CMD_SETGIP2, 0x02, 0x21, 0x00, 0x00, 0x00, 0x00, 0x00,
          0x00, 0x00, 0x00, 0x00, 0x00, 0x02, 0x46, 0x02, 0x88, 0x88, 0x88, 0x88, 0x88,
          0x88, 0x64, 0x88, 0x13, 0x57, 0x13, 0x88, 0x88, 0x88, 0x88, 0x88, 0x88, 0x75,
          0x88, 0x23, 0x14, 0x00, 0x00, 0x02, 0x00, 0x00, 0x00, 0x00, 0x00, 0x00, 0x00,
          0x00, 0x00, 0x00, 0x00, 0x00, 0x00, 0x00, 0x00, 0x30, 0x0A, 0xA5, 0x00, 0x00,
          0x00, 0x00],
      Generic_Write_Seq [ST7703_CMD_SETGAMMA, 0x00, 0x09, 0x0E, 0x29, 0x2D, 0x3C, 0x41,
          0x37, 0x07, 0x0B, 0x0D, 0x10, 0x11, 0x0F, 0x10, 0x11, 0x18, 0x00, 0x09, 0x0E,
          0x29, 0x2D, 0x3C, 0x41, 0x37, 0x07, 0x0B, 0x0D, 0x10, 0x11, 0x0F, 0x10, 0x11,
          0x18]]"

definition jh057n_init_sequence :: "env \<Rightarrow> hw \<Rightarrow> int \<times> hw" where
  "jh057n_init_sequence e h = run_init e jh057n_steps h"

text \<open>Every statement of this routine is commented out in the source.\<close>

definition xbd599_steps :: "init_step list" where
  "xbd599_steps = []"

definition xbd599_init_sequence :: "env \<Rightarrow> hw \<Rightarrow> int \<times> hw" where
  "xbd599_init_sequence e h = run_init e xbd599_steps h"

definition p0500063b_steps :: "init_step list" where
  "p0500063b_steps =
     [Dcs_Write_Seq ST7703_CMD_SETEXTC [0xF1, 0x12, 0x83],
      Dcs_Write_Seq 0xB1 [0x00, 0x00, 0x00, 0xDA, 0x80],
      Dcs_Write_Seq ST7703_CMD_SETDISP [0x78, 0x13, 0xF0],
      Dcs_Write_Seq ST7703_CMD_SETRGBIF [0x1A, 0x1E, 0x28, 0x28, 0x03, 0xFF, 0x00, 0x00,
          0x00, 0x00],
      Dcs_Write_Seq ST7703_CMD_SETCYC [0x80],
      Dcs_Write_Seq ST7703_CMD_SETBGP [0x10, 0x10],
      Dcs_Write_Seq ST7703_CMD_SETVCOM [0x48, 0x48],
      Dcs_Write_Seq ST7703_CMD_SETPOWER_EXT [0x2E, 0x22, 0xF0, 0x13],
      Dcs_Write_Seq ST7703_CMD_SETMIPI [0x33, 0x81, 0x05, 0xF9, 0x0E, 0x0E, 0x20, 0x00,
          0x00, 0x00, 0x00, 0x00, 0x00, 0x00, 0x44, 0x25, 0x00, 0x90, 0x0A, 0x00, 0x00,
          0x01, 0x4F, 0x01, 0x00, 0x00, 0x37],
      Dcs_Write_Seq ST7703_CMD_SETVDC [0x4F],
      Dcs_Write_Seq ST7703_CMD_UNKNOWN_BF [0x02, 0x11, 0x00],
      Dcs_Write_Seq ST7703_CMD_SETSCR [0x73, 0x73, 0x50, 0x50, 0x00, 0x00, 0x12, 0x70,
          0x00],
      Dcs_Write_Seq ST7703_CMD_SETPOWER [0x64, 0xC1, 0x2C, 0x2C, 0x77, 0xE4, 0xCF, 0xCF,
          0x7E, 0x7E, 0x3E, 0x3E],
      Dcs_Write_Seq ST7703_CMD_UNKNOWN_C6 [0x82, 0x00, 0xBF, 0xFF, 0x00, 0xFF],
      Dcs_Write_Seq ST7703_CMD_SETIO [0xB8, 0x00, 0x0A, 0x00, 0x00, 0x00],
      Dcs_Write_Seq ST7703_CMD_SETCABC [0x10, 0x40, 0x1E, 0x02],
      Dcs_Write_Seq ST7703_CMD_SETPANEL [0x0B],
      Dcs_Write_Seq ST7703_CMD_SETGAMMA [0x00, 0x0B, 0x10, 0x24, 0x29, 0x38, 0x44, 0x39,
          0x0A, 0x0D, 0x0D, 0x12, 0x14, 0x13, 0x15, 0x10, 0x15, 0x00, 0x0B, 0x10, 0x24,
          0x29, 0x38, 0x44, 0x39, 0x0A, 0x0D, 0x0D, 0x12, 0x14, 0x13, 0x15, 0x10, 0x15],
      Dcs_Write_Seq ST7703_CMD_SETEQ [0x07, 0x07, 0x0B, 0x0B, 0x0B, 0x0B, 0x00, 0x00,
          0x00, 0x00, 0xFF, 0x00, 0xC0, 0x10],
      Dcs_Write_Seq ST7703_CMD_SETGIP1 [0xC8, 0x10, 0x11, 0x03, 0xC3, 0x80, 0x81, 0x12,
          0x31, 0x23, 0xAF, 0x8E, 0xAD, 0x6D, 0x8F, 0x10, 0x03, 0x00, 0x19, 0x00, 0x00,
          0x00, 0x03, 0x00, 0x19, 0x00, 0x00, 0x00, 0x9F, 0x84, 0x6A, 0xB6, 0x48, 0x20,
          0x64, 0x20, 0x20, 0x88, 0x88, 0x9F, 0x85, 0x7A, 0xB7, 0x58, 0x31, 0x75, 0x31,
          0x31, 0x88, 0x88, 0x00, 0x00, 0x00, 0x00, 0x00, 0x80, 0x81, 0x5F, 0x00, 0x00,
          0x00, 0x00, 0x00, 0x00, 0x00],
      Dcs_Write_Seq ST7703_CMD_SETGIP2 [0x96, 0x1C, 0x01, 0x01, 0x00, 0x00, 0x01, 0x00,
          0x00, 0x00, 0x00, 0x00, 0x98, 0xF3, 0x1A, 0xB1, 0x38, 0x57, 0x13, 0x57, 0x57,
          0x88, 0x88, 0x98, 0xF2, 0x0A, 0xB0, 0x28, 0x46, 0x02, 0x46, 0x46, 0x88, 0x88,
          0x23, 0x10, 0x00, 0x00, 0xF4, 0x00, 0x00, 0x00, 0x00, 0x00, 0x00, 0x0D, 0x80,
          0x00, 0xF0, 0x00, 0x03, 0xCF, 0x12, 0x30, 0x70, 0x80, 0x81, 0x40, 0x80, 0x81,
          0x00, 0x00, 0x00, 0x00],
      Dcs_Write_Seq ST7703_CMD_UNKNOWN_EF [0xFF, 0xFF, 0x01]]"

definition p0500063b_init_sequence :: "env \<Rightarrow> hw \<Rightarrow> int \<times> hw" where
  "p0500063b_init_sequence e h = run_init e p0500063b_steps h"

text \<open>The fields of the three descriptors that the lifecycle reads.\<close>

fun init_steps :: "st7703_panel_desc \<Rightarrow> init_step list" where
  "init_steps Jh057n00900_panel_desc = jh057n_steps"
| "init_steps Xbd599_desc = xbd599_steps"
| "init_steps P0500063b_desc = p0500063b_steps"

fun init_sequence :: "st7703_panel_desc \<Rightarrow> env \<Rightarrow> hw \<Rightarrow> int \<times> hw" where
  "init_sequence Jh057n00900_panel_desc = jh057n_init_sequence"
| "init_sequence Xbd599_desc = xbd599_init_sequence"
| "init_sequence P0500063b_desc = p0500063b_init_sequence"

fun mode_flags :: "st7703_panel_desc \<Rightarrow> dsi_mode_flag set" where
  "mode_flags Jh057n00900_panel_desc =
     {MIPI_DSI_MODE_VIDEO, MIPI_DSI_MODE_VIDEO_BURST, MIPI_DSI_MODE_VIDEO_SYNC_PULSE}"
| "mode_flags Xbd599_desc = {MIPI_DSI_MODE_VIDEO, MIPI_DSI_MODE_VIDEO_SYNC_PULSE}"
| "mode_flags P0500063b_desc = {MIPI_DSI_MODE_VIDEO, MIPI_DSI_MODE_VIDEO_SYNC_PULSE}"

section \<open>Lifecycle operations\<close>

text \<open>The diagnostic read; its result is only printed.\<close>

definition readInfo :: "env \<Rightarrow> hw \<Rightarrow> hw" where
  "readInfo e h = snd (mipi_dsi_dcs_read e 0xDA 1 h)"

text \<open>
  The result of the display-on command is stored and never tested: the test that
  followed it is commented out in the source.
\<close>

definition st7703_enable :: "env \<Rightarrow> st7703 \<Rightarrow> hw \<Rightarrow> int \<times> st7703 \<times> hw" where
  "st7703_enable e ctx h =
     (let ctx1 = ctx\<lparr>dsi_mode_flags := dsi_mode_flags ctx \<union> {MIPI_DSI_MODE_LPM}\<rparr>;
          (ret, h1) = init_sequence (desc ctx1) e h
      in if ret < 0 then (ret, ctx1, h1)
         else
           let h2 = msleep 20 h1;
               (ret2, h3) = mipi_dsi_dcs_exit_sleep_mode e h2
           in if ret2 < 0 then (ret2, ctx1, h3)
              else
                let h4 = msleep 120 h3;
                    h5 = readInfo e h4;
                    (ret3, h6) = mipi_dsi_dcs_set_display_on e h5;
                    h7 = readInfo e h6
                in (0, ctx1, h7))"

definition st7703_disable :: "env \<Rightarrow> st7703 \<Rightarrow> hw \<Rightarrow> int \<times> st7703 \<times> hw" where
  "st7703_disable e ctx h =
     (let (ret, h1) = mipi_dsi_dcs_set_display_off e h;
          (ret2, h2) = mipi_dsi_dcs_enter_sleep_mode e h1
      in (0, ctx, h2))"

text \<open>
  The results of the two \<^verbatim>\<open>regulator_disable\<close> calls are dropped. The second call is
  guarded by \<^verbatim>\<open>!ctx->prepared && IS_ERR_OR_NULL(ctx->vcc)\<close>, as written in the source.
\<close>

definition st7703_unprepare :: "env \<Rightarrow> st7703 \<Rightarrow> hw \<Rightarrow> fault + (int \<times> st7703 \<times> hw)" where
  "st7703_unprepare e ctx h =
     (if \<not> prepared ctx then Inr (0, ctx, h)
      else
        let h1 = gpiod_set_value_cansleep True h
        in case (if \<not> IS_ERR_OR_NULL (iovcc ctx)
                 then regulator_disable e Iovcc (iovcc ctx) h1 else Inr (0, h1)) of
             Inl f \<Rightarrow> Inl f
           | Inr (r1, h2) \<Rightarrow>
               (case (if \<not> prepared ctx \<and> IS_ERR_OR_NULL (vcc ctx)
                      then regulator_disable e Vcc (vcc ctx) h2 else Inr (0, h2)) of
                  Inl f \<Rightarrow> Inl f
                | Inr (r2, h3) \<Rightarrow> Inr (0, ctx\<lparr>prepared := False\<rparr>, msleep 40 h3)))"

text \<open>
  \<^verbatim>\<open>ret\<close> starts at 0 and is overwritten by each regulator call that is made, so a
  skipped call leaves the following test false. The label \<^verbatim>\<open>disable_vcc\<close> calls
  \<^verbatim>\<open>regulator_disable(ctx->vcc)\<close> without testing the pointer.
\<close>

definition st7703_prepare :: "env \<Rightarrow> st7703 \<Rightarrow> hw \<Rightarrow> fault + (int \<times> st7703 \<times> hw)" where
  "st7703_prepare e ctx h =
     (if prepared ctx then Inr (0, ctx, h)
      else
        case (if \<not> prepared ctx \<and> \<not> IS_ERR_OR_NULL (vcc ctx)
              then regulator_enable e Vcc (vcc ctx) h else Inr (0, h)) of
          Inl f \<Rightarrow> Inl f
        | Inr (ret, h1) \<Rightarrow>
            if ret < 0 then Inr (ret, ctx, h1)
            else
              let ctx1 = ctx\<lparr>prepared := True\<rparr>
              in (case (if \<not> IS_ERR_OR_NULL (iovcc ctx1)
                        then regulator_enable e Iovcc (iovcc ctx1) h1 else Inr (ret, h1)) of
                    Inl f \<Rightarrow> Inl f
                  | Inr (ret2, h2) \<Rightarrow>
                      (if ret2 < 0 then
                         (case regulator_disable e Vcc (vcc ctx1) h2 of
                            Inl f \<Rightarrow> Inl f
                          | Inr (r3, h3) \<Rightarrow> Inr (ret2, ctx1\<lparr>prepared := False\<rparr>, h3))
                       else
                         (let h3 = gpiod_set_value_cansleep True h2;
                              h4 = msleep 20 h3;
                              h5 = gpiod_set_value_cansleep False h4;
                              h6 = msleep 120 h5
                          in Inr (0, ctx1, h6)))))"

section \<open>Observations and concrete inputs\<close>

text \<open>The trace a lifecycle call leaves behind; a faulting call leaves none.\<close>

fun trace_of :: "fault + (int \<times> st7703 \<times> hw) \<Rightarrow> event list" where
  "trace_of (Inl f) = []"
| "trace_of (Inr (ret, ctx, h)) = events h"

text \<open>The number of codec writes an initialization routine contains.\<close>

fun codec_calls :: "init_step list \<Rightarrow> nat" where
  "codec_calls [] = 0"
| "codec_calls (Msleep_Step n # ss) = codec_calls ss"
| "codec_calls (s # ss) = Suc (codec_calls ss)"

text \<open>Every DCS write of a trace is directly followed by a sleep of 20 ms.\<close>

definition is_dcs_write :: "event \<Rightarrow> bool" where
  "is_dcs_write ev = (case ev of Dcs_Write cmd d \<Rightarrow> True | _ \<Rightarrow> False)"

fun dcs_writes_settled :: "event list \<Rightarrow> bool" where
  "dcs_writes_settled [] = True"
| "dcs_writes_settled (ev # es) =
     ((if is_dcs_write ev then take 1 es = [Msleep 20] else True) \<and> dcs_writes_settled es)"

text \<open>
  The power-up order in the words of the specification, for comparison with the driver:
  assert reset, enable the primary rail if present, wait a settle delay, enable the
  secondary rail if present, wait a settle delay, deassert reset, wait 120 ms.
\<close>

definition spec_power_up_events :: "st7703 \<Rightarrow> nat \<Rightarrow> event list" where
  "spec_power_up_events ctx settle =
     [Gpio_Set True] @
     (if IS_ERR_OR_NULL (vcc ctx) then [] else [Reg_Enable Vcc]) @
     [Msleep settle] @
     (if IS_ERR_OR_NULL (iovcc ctx) then [] else [Reg_Enable Iovcc]) @
     [Msleep settle] @
     [Gpio_Set False, Msleep 120]"

text \<open>A fresh trace, and hardware on which every call succeeds.\<close>

definition hw0 :: hw where
  "hw0 = \<lparr>events = [], bus_calls = 0, reg_calls = 0\<rparr>"

definition env_ok :: env where
  "env_ok = \<lparr>bus_ret = (\<lambda>n. 0), reg_ret = (\<lambda>n. 0)\<rparr>"

text \<open>A bus whose transaction number \<open>k\<close> (counted from 0) fails with \<^verbatim>\<open>-EIO\<close>.\<close>

definition env_bus_fails_at :: "nat \<Rightarrow> env" where
  "env_bus_fails_at k = \<lparr>bus_ret = (\<lambda>n. if n = k then - 5 else 0), reg_ret = (\<lambda>n. 0)\<rparr>"

text \<open>Regulators whose second call (the enable of iovcc during prepare) fails.\<close>

definition env_iovcc_fails :: env where
  "env_iovcc_fails = \<lparr>bus_ret = (\<lambda>n. 0), reg_ret = (\<lambda>n. if n = 1 then - 5 else 0)\<rparr>"

text \<open>
  The panel object as the probe routine leaves it when both supplies are wired:
  zeroed, the bus flags copied from the descriptor.
\<close>

definition probed :: "st7703_panel_desc \<Rightarrow> st7703" where
  "probed d = \<lparr>vcc = Valid, iovcc = Valid, prepared = False,
                dsi_mode_flags = mode_flags d, desc = d\<rparr>"

section \<open>Basic facts\<close>

lemmas hw_ops = msleep_def gpiod_set_value_cansleep_def regulator_call_def regulator_enable_def
  regulator_disable_def bus_xfer_def IS_ERR_OR_NULL_def

lemmas bus_ops = mipi_dsi_generic_write_def mipi_dsi_dcs_write_def mipi_dsi_dcs_read_def
  mipi_dsi_dcs_exit_sleep_mode_def mipi_dsi_dcs_enter_sleep_mode_def
  mipi_dsi_dcs_set_display_on_def mipi_dsi_dcs_set_display_off_def

lemma init_sequence_run: "init_sequence d e h = run_init e (init_steps d) h"
  by (cases d) (simp_all add: jh057n_init_sequence_def xbd599_init_sequence_def
      p0500063b_init_sequence_def)

text \<open>What one statement of an initialization routine does to the world.\<close>

lemma exec_step_cases:
  "exec_step e s h = (r, h1) \<Longrightarrow>
     (\<exists>d. s = Generic_Write_Seq d \<and> events h1 = events h @ [Generic_Write d] \<and>
          bus_calls h1 = Suc (bus_calls h) \<and>
          r = (if bus_ret e (bus_calls h) < 0 then Some (bus_ret e (bus_calls h)) else None)) \<or>
     (\<exists>cmd d. s = Dcs_Write_Seq cmd d \<and> events h1 = events h @ [Dcs_Write cmd d, Msleep 20] \<and>
          bus_calls h1 = Suc (bus_calls h) \<and>
          r = (if bus_ret e (bus_calls h) < 0 then Some (bus_ret e (bus_calls h)) else None)) \<or>
     (\<exists>n. s = Msleep_Step n \<and> events h1 = events h @ [Msleep n] \<and>
          bus_calls h1 = bus_calls h \<and> r = None)"
  by (cases s) (auto simp: dsi_generic_write_seq_def dsi_dcs_write_seq_def bus_ops hw_ops)

text \<open>A routine only appends to the trace, and what it appends has every DCS write settled.\<close>

lemma run_init_settled:
  "\<exists>tr. events (snd (run_init e ss h)) = events h @ tr \<and> dcs_writes_settled tr"
proof (induction ss arbitrary: h)
  case Nil
  show ?case by simp
next
  case (Cons s ss)
  obtain r h1 where st: "exec_step e s h = (r, h1)" by (cases "exec_step e s h")
  from Cons.IH[of h1] obtain tr where
    tr: "events (snd (run_init e ss h1)) = events h1 @ tr" "dcs_writes_settled tr" by blast
  from exec_step_cases[OF st] show ?case
  proof (elim disjE exE conjE)
    fix d assume "s = Generic_Write_Seq d" "events h1 = events h @ [Generic_Write d]"
    with st tr show ?thesis by (cases r) (auto simp: is_dcs_write_def)
  next
    fix cmd d assume "s = Dcs_Write_Seq cmd d" "events h1 = events h @ [Dcs_Write cmd d, Msleep 20]"
    with st tr show ?thesis by (cases r) (auto simp: is_dcs_write_def)
  next
    fix n assume "s = Msleep_Step n" "events h1 = events h @ [Msleep n]" "r = None"
    with st tr show ?thesis by (auto simp: is_dcs_write_def)
  qed
qed

text \<open>
  When the \<open>k\<close>-th codec write of a routine is the first to fail, the routine returns its
  code and the bus has seen exactly \<open>k + 1\<close> transactions.
\<close>

lemma run_init_fail_fast:
  "k < codec_calls ss \<Longrightarrow> \<forall>j<k. 0 \<le> bus_ret e (bus_calls h + j) \<Longrightarrow>
   bus_ret e (bus_calls h + k) < 0 \<Longrightarrow>
   fst (run_init e ss h) = bus_ret e (bus_calls h + k) \<and>
   bus_calls (snd (run_init e ss h)) = bus_calls h + Suc k"
proof (induction ss arbitrary: h k)
  case Nil
  then show ?case by simp
next
  case (Cons s ss)
  obtain r h1 where st: "exec_step e s h = (r, h1)" by (cases "exec_step e s h")
  show ?case
  proof (cases "\<exists>n. s = Msleep_Step n")
    case True
    then obtain n where s: "s = Msleep_Step n" by blast
    with st have h1: "bus_calls h1 = bus_calls h" "r = None"
      by (auto simp: hw_ops)
    from Cons.prems s have "k < codec_calls ss" by simp
    from Cons.IH[OF this, of h1] Cons.prems(2,3) h1 st show ?thesis by simp
  next
    case False
    with exec_step_cases[OF st] have h1: "bus_calls h1 = Suc (bus_calls h)"
      and r: "r = (if bus_ret e (bus_calls h) < 0 then Some (bus_ret e (bus_calls h)) else None)"
      by auto
    from False have cc: "codec_calls (s # ss) = Suc (codec_calls ss)" by (cases s) auto
    show ?thesis
    proof (cases k)
      case 0
      with Cons.prems(3) r st h1 show ?thesis by simp
    next
      case (Suc k')
      with Cons.prems(2) have ok: "0 \<le> bus_ret e (bus_calls h)"
        by (metis add.right_neutral zero_less_Suc)
      from Suc Cons.prems(1) cc have 1: "k' < codec_calls ss" by simp
      from Suc Cons.prems(2) h1 have 2: "\<forall>j<k'. 0 \<le> bus_ret e (bus_calls h1 + j)"
        by (metis Suc_less_eq add_Suc_shift)
      from Suc Cons.prems(3) h1 have 3: "bus_ret e (bus_calls h1 + k') < 0" by simp
      from Cons.IH[OF 1 2 3] ok r st h1 Suc show ?thesis by simp
    qed
  qed
qed

text \<open>The p0500063b routine on a bus whose third transaction fails.\<close>

lemma p0500063b_third_write_fails:
  "init_sequence P0500063b_desc (env_bus_fails_at 2) hw0 =
     (- 5, \<lparr>events = [Dcs_Write ST7703_CMD_SETEXTC [0xF1, 0x12, 0x83], Msleep 20,
                      Dcs_Write 0xB1 [0x00, 0x00, 0x00, 0xDA, 0x80], Msleep 20,
                      Dcs_Write ST7703_CMD_SETDISP [0x78, 0x13, 0xF0], Msleep 20],
             bus_calls = 3, reg_calls = 0\<rparr>)"
  by (simp add: hw0_def env_bus_fails_at_def p0500063b_init_sequence_def
      p0500063b_steps_def dsi_dcs_write_seq_def bus_ops hw_ops)

lemma xbd599_init_returns: "init_sequence Xbd599_desc e h = (0, h)"
  by (simp add: xbd599_init_sequence_def xbd599_steps_def)

section \<open>Power sequencing\<close>

text \<open>
  Claim C1 says that unprepare, called on a prepared panel, asserts reset, disables the
  secondary rail and then the primary rail, and waits 40 ms. The driver guards the second
  disable with \<^verbatim>\<open>!ctx->prepared && IS_ERR_OR_NULL(ctx->vcc)\<close>, which is false whenever this
  point is reached, so vcc stays enabled: on a prepared panel with both supplies wired the
  trace is reset asserted, iovcc disabled, 40 ms sleep, and nothing else.
\<close>

theorem st7703_unprepare_keeps_vcc_enabled:
  "st7703_unprepare env_ok ((probed P0500063b_desc)\<lparr>prepared := True\<rparr>) hw0 =
     Inr (0, probed P0500063b_desc,
          \<lparr>events = [Gpio_Set True, Reg_Disable Iovcc, Msleep 40],
            bus_calls = 0, reg_calls = 1\<rparr>)"
  by (simp add: st7703_unprepare_def probed_def hw0_def env_ok_def hw_ops)

text \<open>
  Claim C3, as stated, puts the assertion of reset first and a settle delay after each
  rail. On a panel with both supplies wired the driver starts with the primary rail, and
  its trace is not the one the specification describes.
\<close>

theorem st7703_prepare_differs_from_spec_order:
  "trace_of (st7703_prepare env_ok (probed P0500063b_desc) hw0) \<noteq>
     spec_power_up_events (probed P0500063b_desc) 20 \<and>
   hd (trace_of (st7703_prepare env_ok (probed P0500063b_desc) hw0)) = Reg_Enable Vcc \<and>
   hd (spec_power_up_events (probed P0500063b_desc) 20) = Gpio_Set True"
  by (simp add: st7703_prepare_def spec_power_up_events_def probed_def hw0_def env_ok_def hw_ops)

text \<open>
  Claim C3, amended: a call to prepare on an unprepared panel, in which every rail enable
  that is made succeeds, returns 0 with the panel prepared, and its hardware actions are,
  in this order: enable the primary rail if present, enable the secondary rail if present,
  assert reset, sleep 20 ms, deassert reset, sleep 120 ms. The deassertion of reset is the
  last change made to the hardware.
\<close>

theorem st7703_prepare_order:
  assumes "\<not> prepared ctx"
    and "\<not> IS_ERR_OR_NULL (vcc ctx) \<longrightarrow> 0 \<le> reg_ret e (reg_calls h)"
    and "\<not> IS_ERR_OR_NULL (iovcc ctx) \<longrightarrow>
           0 \<le> reg_ret e (if IS_ERR_OR_NULL (vcc ctx) then reg_calls h else Suc (reg_calls h))"
  shows "\<exists>h'. st7703_prepare e ctx h = Inr (0, ctx\<lparr>prepared := True\<rparr>, h') \<and>
           events h' = events h @
             (if IS_ERR_OR_NULL (vcc ctx) then [] else [Reg_Enable Vcc]) @
             (if IS_ERR_OR_NULL (iovcc ctx) then [] else [Reg_Enable Iovcc]) @
             [Gpio_Set True, Msleep 20, Gpio_Set False, Msleep 120]"
  using assms
  by (cases "IS_ERR_OR_NULL (vcc ctx)"; cases "IS_ERR_OR_NULL (iovcc ctx)")
     (simp_all add: st7703_prepare_def Let_def msleep_def gpiod_set_value_cansleep_def
        regulator_call_def regulator_enable_def)

text \<open>Claim C3, amended, on a probed panel with both supplies and hardware that succeeds.\<close>

theorem st7703_prepare_order_witness:
  "st7703_prepare env_ok (probed P0500063b_desc) hw0 =
     Inr (0, (probed P0500063b_desc)\<lparr>prepared := True\<rparr>,
          \<lparr>events = [Reg_Enable Vcc, Reg_Enable Iovcc, Gpio_Set True, Msleep 20,
                     Gpio_Set False, Msleep 120],
            bus_calls = 0, reg_calls = 2\<rparr>)"
  using st7703_prepare_order[of "probed P0500063b_desc" env_ok hw0]
  by (auto simp add: st7703_prepare_def probed_def hw0_def env_ok_def hw_ops)

text \<open>
  Claim C4: when prepare has enabled the primary rail and the enable of the secondary
  rail then fails, the primary rail is disabled again, nothing else is done, the error of
  the secondary rail is returned and the panel is unprepared.
\<close>

theorem st7703_prepare_iovcc_failure_rollback:
  assumes "\<not> prepared ctx"
    and "\<not> IS_ERR_OR_NULL (vcc ctx)" and "\<not> IS_ERR_OR_NULL (iovcc ctx)"
    and "0 \<le> reg_ret e (reg_calls h)"
    and "reg_ret e (Suc (reg_calls h)) < 0"
  shows "st7703_prepare e ctx h =
           Inr (reg_ret e (Suc (reg_calls h)), ctx\<lparr>prepared := False\<rparr>,
                h\<lparr>events := events h @ [Reg_Enable Vcc, Reg_Enable Iovcc, Reg_Disable Vcc],
                  reg_calls := Suc (Suc (Suc (reg_calls h)))\<rparr>)"
  using assms
  by (simp add: st7703_prepare_def Let_def regulator_call_def regulator_enable_def
      regulator_disable_def)

text \<open>Claim C4 on a probed panel whose secondary rail refuses to come up.\<close>

theorem st7703_prepare_iovcc_failure_rollback_witness:
  "st7703_prepare env_iovcc_fails (probed P0500063b_desc) hw0 =
     Inr (- 5, probed P0500063b_desc,
          \<lparr>events = [Reg_Enable Vcc, Reg_Enable Iovcc, Reg_Disable Vcc],
            bus_calls = 0, reg_calls = 3\<rparr>)"
  using st7703_prepare_iovcc_failure_rollback[of "probed P0500063b_desc" env_iovcc_fails hw0]
  by (simp add: probed_def hw0_def env_iovcc_fails_def IS_ERR_OR_NULL_def)

text \<open>
  Claim C5: prepare on a panel that is already prepared, and unprepare on a panel that is
  not, return 0 and leave the panel object and the whole outside world as they were: no
  reset toggle, no regulator call, no sleep.
\<close>

theorem st7703_prepare_unprepare_idempotent:
  "(prepared ctx \<longrightarrow> st7703_prepare e ctx h = Inr (0, ctx, h)) \<and>
   (\<not> prepared ctx \<longrightarrow> st7703_unprepare e ctx h = Inr (0, ctx, h))"
  by (simp add: st7703_prepare_def st7703_unprepare_def)

text \<open>Claim C5 on a prepared and on an unprepared panel.\<close>

theorem st7703_prepare_unprepare_idempotent_witness:
  "st7703_prepare env_ok ((probed P0500063b_desc)\<lparr>prepared := True\<rparr>) hw0 =
     Inr (0, (probed P0500063b_desc)\<lparr>prepared := True\<rparr>, hw0) \<and>
   st7703_unprepare env_ok (probed P0500063b_desc) hw0 = Inr (0, probed P0500063b_desc, hw0)"
  using
    st7703_prepare_unprepare_idempotent[of "(probed P0500063b_desc)\<lparr>prepared := True\<rparr>" env_ok hw0]
    st7703_prepare_unprepare_idempotent[of "probed P0500063b_desc" env_ok hw0]
  by (simp add: probed_def)

text \<open>
  Claim C7: whatever the regulators answer, unprepare returns 0 and the panel is
  unprepared afterwards.
\<close>

theorem st7703_unprepare_always_unprepared:
  "\<exists>ctx' h'. st7703_unprepare e ctx h = Inr (0, ctx', h') \<and> \<not> prepared ctx'"
  by (simp add: st7703_unprepare_def Let_def hw_ops split: regulator_ptr.splits)

section \<open>Commands on the bus\<close>

text \<open>
  Claim C2, as stated, has enable return the error of a failed display-on command. The
  driver stores that result and never tests it: on the xbd599 variant, whose routine sends
  nothing, the display-on command is the third bus transaction of enable, and when it
  fails enable still runs to its end and returns 0.
\<close>

theorem st7703_enable_display_on_error_dropped:
  "bus_ret (env_bus_fails_at 2) 2 < 0 \<and>
   st7703_enable (env_bus_fails_at 2) ((probed Xbd599_desc)\<lparr>prepared := True\<rparr>) hw0 =
     (0, (probed Xbd599_desc)\<lparr>prepared := True,
            dsi_mode_flags := mode_flags Xbd599_desc \<union> {MIPI_DSI_MODE_LPM}\<rparr>,
      \<lparr>events = [Msleep 20, Exit_Sleep_Mode, Msleep 120, Dcs_Read 0xDA 1,
                 Set_Display_On, Dcs_Read 0xDA 1],
        bus_calls = 4, reg_calls = 0\<rparr>)"
  by (simp add: st7703_enable_def probed_def hw0_def env_bus_fails_at_def hw_ops bus_ops
      readInfo_def xbd599_init_sequence_def xbd599_steps_def)

text \<open>
  Claim C2, amended: when the initialization routine of the variant returns an error,
  enable returns that error at once; when the routine succeeds and the exit-sleep command
  fails, enable returns the error of that command; when both succeed enable returns 0,
  whatever the display-on command answers. In every case the prepared flag of the panel is
  what it was before the call.
\<close>

theorem st7703_enable_failure_paths:
  assumes "init_sequence (desc ctx) e h = (r1, h1)"
  shows "(r1 < 0 \<longrightarrow>
            st7703_enable e ctx h =
              (r1, ctx\<lparr>dsi_mode_flags := dsi_mode_flags ctx \<union> {MIPI_DSI_MODE_LPM}\<rparr>, h1)) \<and>
         (0 \<le> r1 \<and> bus_ret e (bus_calls h1) < 0 \<longrightarrow>
            st7703_enable e ctx h =
              (bus_ret e (bus_calls h1),
               ctx\<lparr>dsi_mode_flags := dsi_mode_flags ctx \<union> {MIPI_DSI_MODE_LPM}\<rparr>,
               h1\<lparr>events := events h1 @ [Msleep 20, Exit_Sleep_Mode],
                   bus_calls := Suc (bus_calls h1)\<rparr>)) \<and>
         (0 \<le> r1 \<and> 0 \<le> bus_ret e (bus_calls h1) \<longrightarrow> fst (st7703_enable e ctx h) = 0) \<and>
         prepared (fst (snd (st7703_enable e ctx h))) = prepared ctx"
  using assms
  by (simp add: st7703_enable_def Let_def hw_ops bus_ops readInfo_def split: prod.splits)

text \<open>
  Claim C2, amended, on three runs: the p0500063b routine failing at its third write, the
  exit-sleep command failing on the xbd599 variant, and the display-on command failing on
  the xbd599 variant.
\<close>

theorem st7703_enable_failure_paths_witness:
  "st7703_enable (env_bus_fails_at 2) ((probed P0500063b_desc)\<lparr>prepared := True\<rparr>) hw0 =
     (- 5, (probed P0500063b_desc)\<lparr>prepared := True,
              dsi_mode_flags := mode_flags P0500063b_desc \<union> {MIPI_DSI_MODE_LPM}\<rparr>,
      \<lparr>events = [Dcs_Write ST7703_CMD_SETEXTC [0xF1, 0x12, 0x83], Msleep 20,
                 Dcs_Write 0xB1 [0x00, 0x00, 0x00, 0xDA, 0x80], Msleep 20,
                 Dcs_Write ST7703_CMD_SETDISP [0x78, 0x13, 0xF0], Msleep 20],
        bus_calls = 3, reg_calls = 0\<rparr>) \<and>
   st7703_enable (env_bus_fails_at 0) ((probed Xbd599_desc)\<lparr>prepared := True\<rparr>) hw0 =
     (- 5, (probed Xbd599_desc)\<lparr>prepared := True,
              dsi_mode_flags := mode_flags Xbd599_desc \<union> {MIPI_DSI_MODE_LPM}\<rparr>,
      \<lparr>events = [Msleep 20, Exit_Sleep_Mode], bus_calls = 1, reg_calls = 0\<rparr>) \<and>
   fst (st7703_enable (env_bus_fails_at 2) ((probed Xbd599_desc)\<lparr>prepared := True\<rparr>) hw0) = 0 \<and>
   prepared (fst (snd (st7703_enable (env_bus_fails_at 2)
                         ((probed Xbd599_desc)\<lparr>prepared := True\<rparr>) hw0)))"
proof -
  let ?p = "(probed P0500063b_desc)\<lparr>prepared := True\<rparr>"
  let ?x = "(probed Xbd599_desc)\<lparr>prepared := True\<rparr>"
  have i1: "init_sequence (desc ?p) (env_bus_fails_at 2) hw0 =
     (- 5, \<lparr>events = [Dcs_Write ST7703_CMD_SETEXTC [0xF1, 0x12, 0x83], Msleep 20,
                      Dcs_Write 0xB1 [0x00, 0x00, 0x00, 0xDA, 0x80], Msleep 20,
                      Dcs_Write ST7703_CMD_SETDISP [0x78, 0x13, 0xF0], Msleep 20],
             bus_calls = 3, reg_calls = 0\<rparr>)"
    using p0500063b_third_write_fails by (simp add: probed_def)
  have i2: "init_sequence (desc ?x) (env_bus_fails_at 0) hw0 = (0, hw0)"
    using xbd599_init_returns[of "env_bus_fails_at 0" hw0] by (simp add: probed_def)
  have i3: "init_sequence (desc ?x) (env_bus_fails_at 2) hw0 = (0, hw0)"
    using xbd599_init_returns[of "env_bus_fails_at 2" hw0] by (simp add: probed_def)
  show ?thesis
    using st7703_enable_failure_paths[OF i1] st7703_enable_failure_paths[OF i2]
      st7703_enable_failure_paths[OF i3]
    by (simp add: probed_def hw0_def env_bus_fails_at_def)
qed

text \<open>
  Claim C6: when write number \<open>k\<close> of the initialization routine of any variant is the
  first to be refused by the transport, the routine returns the code of that write, the
  bus has seen the \<open>k + 1\<close> transactions up to it and none after, and enable hands the same
  code to its caller without another action, the panel still prepared.
\<close>

theorem init_sequence_fail_fast:
  assumes "k < codec_calls (init_steps (desc ctx))"
    and "\<forall>j<k. 0 \<le> bus_ret e (bus_calls h + j)"
    and "bus_ret e (bus_calls h + k) < 0"
  shows "fst (init_sequence (desc ctx) e h) = bus_ret e (bus_calls h + k) \<and>
         bus_calls (snd (init_sequence (desc ctx) e h)) = bus_calls h + Suc k \<and>
         st7703_enable e ctx h =
           (bus_ret e (bus_calls h + k),
            ctx\<lparr>dsi_mode_flags := dsi_mode_flags ctx \<union> {MIPI_DSI_MODE_LPM}\<rparr>,
            snd (init_sequence (desc ctx) e h)) \<and>
         prepared (fst (snd (st7703_enable e ctx h))) = prepared ctx"
proof -
  from run_init_fail_fast[OF assms]
  have r: "fst (init_sequence (desc ctx) e h) = bus_ret e (bus_calls h + k)"
    and c: "bus_calls (snd (init_sequence (desc ctx) e h)) = bus_calls h + Suc k"
    by (simp_all add: init_sequence_run)
  obtain r1 h1 where i: "init_sequence (desc ctx) e h = (r1, h1)"
    by (cases "init_sequence (desc ctx) e h")
  with r assms(3) have "r1 < 0" and "r1 = bus_ret e (bus_calls h + k)" by simp_all
  with i have en: "st7703_enable e ctx h =
           (bus_ret e (bus_calls h + k),
            ctx\<lparr>dsi_mode_flags := dsi_mode_flags ctx \<union> {MIPI_DSI_MODE_LPM}\<rparr>,
            snd (init_sequence (desc ctx) e h))"
    by (simp add: st7703_enable_def Let_def)
  from r c en show ?thesis by simp
qed

text \<open>
  Claim C6 with the third codec call of the p0500063b routine made to fail: enable returns
  the error, the panel stays prepared, and the trace ends with the third write and its
  settle delay.
\<close>

theorem init_sequence_fail_fast_witness:
  "st7703_enable (env_bus_fails_at 2) ((probed P0500063b_desc)\<lparr>prepared := True\<rparr>) hw0 =
     (- 5, (probed P0500063b_desc)\<lparr>prepared := True,
              dsi_mode_flags := mode_flags P0500063b_desc \<union> {MIPI_DSI_MODE_LPM}\<rparr>,
      \<lparr>events = [Dcs_Write ST7703_CMD_SETEXTC [0xF1, 0x12, 0x83], Msleep 20,
                 Dcs_Write 0xB1 [0x00, 0x00, 0x00, 0xDA, 0x80], Msleep 20,
                 Dcs_Write ST7703_CMD_SETDISP [0x78, 0x13, 0xF0], Msleep 20],
        bus_calls = 3, reg_calls = 0\<rparr>)"
proof -
  let ?p = "(probed P0500063b_desc)\<lparr>prepared := True\<rparr>"
  have 1: "2 < codec_calls (init_steps (desc ?p))"
    by (simp add: probed_def p0500063b_steps_def)
  have 2: "\<forall>j<2. 0 \<le> bus_ret (env_bus_fails_at 2) (bus_calls hw0 + j)"
    by (simp add: env_bus_fails_at_def hw0_def)
  have 3: "bus_ret (env_bus_fails_at 2) (bus_calls hw0 + 2) < 0"
    by (simp add: env_bus_fails_at_def hw0_def)
  show ?thesis
    using init_sequence_fail_fast[OF 1 2 3] p0500063b_third_write_fails
    by (simp add: probed_def hw0_def env_bus_fails_at_def)
qed

text \<open>
  Claim C8: a DCS write through the codec macro puts the write and then a sleep of 20 ms
  on the trace whatever the transport answers, and only then hands back the error, if
  any; so in what the initialization routine of any variant adds to the trace, every DCS
  write is directly followed by that sleep.
\<close>

theorem dsi_dcs_write_seq_settle_delay:
  "events (snd (dsi_dcs_write_seq e cmd d h)) = events h @ [Dcs_Write cmd d, Msleep 20] \<and>
   fst (dsi_dcs_write_seq e cmd d h) =
     (if bus_ret e (bus_calls h) < 0 then Some (bus_ret e (bus_calls h)) else None) \<and>
   dcs_writes_settled (drop (length (events h)) (events (snd (init_sequence dsc e h))))"
proof -
  from run_init_settled[of e "init_steps dsc" h]
  have "dcs_writes_settled (drop (length (events h)) (events (snd (init_sequence dsc e h))))"
    by (auto simp: init_sequence_run)
  then show ?thesis
    by (simp add: dsi_dcs_write_seq_def mipi_dsi_dcs_write_def bus_xfer_def msleep_def)
qed

text \<open>
  Claim C9: disable sends display-off and then sleep-enter, both whatever the first
  answers, and returns 0 with the panel object unchanged, whatever either answers.
\<close>

theorem st7703_disable_best_effort:
  "st7703_disable e ctx h =
     (0, ctx, h\<lparr>events := events h @ [Set_Display_Off, Enter_Sleep_Mode],
                bus_calls := Suc (Suc (bus_calls h))\<rparr>)"
  by (simp add: st7703_disable_def mipi_dsi_dcs_set_display_off_def
      mipi_dsi_dcs_enter_sleep_mode_def bus_xfer_def)

text \<open>
  Claim C10: the initialization routine of the xbd599 variant returns 0 and leaves the
  outside world untouched (no bus transaction, no sleep), so the first things enable does
  on that variant are its own 20 ms sleep and the exit-sleep command.
\<close>

theorem xbd599_init_sequence_sends_nothing:
  "xbd599_init_sequence e h = (0, h) \<and>
   init_sequence (desc (ctx\<lparr>desc := Xbd599_desc\<rparr>)) e h = (0, h) \<and>
   take 2 (drop (length (events h))
             (events (snd (snd (st7703_enable e (ctx\<lparr>desc := Xbd599_desc\<rparr>) h))))) =
     [Msleep 20, Exit_Sleep_Mode]"
  by (simp add: xbd599_init_sequence_def xbd599_steps_def st7703_enable_def Let_def
      hw_ops bus_ops readInfo_def)

end
